theory Spec2Isabelle
  imports Complex_Main "HOL-Library.Word" "HOL-Library.Multiset" "HOL-Library.Sublist"
begin

unbundle bit_operations_syntax

section \<open>Python values: exceptions and outcomes of a call\<close>

text \<open>
  A call either returns a value or raises. Only the exceptions that the modelled
  functions can raise are listed.
\<close>

datatype py_exception =
    IndexError | ValueError | AttributeError | TypeError | OverflowError | ZeroDivisionError

datatype 'a outcome = Returns 'a | Raises py_exception

text \<open>Sequencing: the second computation runs when the first returns.\<close>

definition and_then :: "'a outcome \<Rightarrow> ('a \<Rightarrow> 'b outcome) \<Rightarrow> 'b outcome" where
  "and_then x f = (case x of Raises e \<Rightarrow> Raises e | Returns v \<Rightarrow> f v)"

section \<open>Python numbers\<close>

subsection \<open>Floats\<close>

text \<open>
  A Python float is an IEEE 754 binary64 number: a finite value, an infinity or a NaN.
  The sign of a zero is not modelled; none of the operations below depends on it.
  \<open>double x\<close> is the float nearest to the real number \<open>x\<close>: the significand has 53
  bits, so a value between \<open>2 ^ e\<close> and \<open>2 ^ (e + 1)\<close> is a multiple of \<open>2 ^ (e - 52)\<close>
  (of \<open>2 ^ - 1074\<close> in the subnormal range); a tie goes to the even significand; a
  result of magnitude \<open>2 ^ 1024\<close> or more is an infinity.
\<close>

datatype pyfloat = Finite real | PosInf | NegInf | NaN

definition round_half_even :: "real \<Rightarrow> int" where
  "round_half_even x =
     (let n = \<lfloor>x\<rfloor>; d = x - of_int n
      in if d < 1 / 2 then n
         else if 1 / 2 < d then n + 1
         else if even n then n else n + 1)"

definition ulp_exponent :: "real \<Rightarrow> int" where
  "ulp_exponent x = max (\<lfloor>log 2 \<bar>x\<bar>\<rfloor> - 52) (- 1074)"

definition nearest :: "real \<Rightarrow> real" where
  "nearest x =
     (if x = 0 then 0
      else of_int (round_half_even (x / 2 powi ulp_exponent x)) * 2 powi ulp_exponent x)"

definition double :: "real \<Rightarrow> pyfloat" where
  "double x =
     (if 2 ^ 1024 \<le> \<bar>nearest x\<bar> then (if 0 < x then PosInf else NegInf)
      else Finite (nearest x))"

text \<open>
  The arithmetic of floats: the exact result, rounded; the usual rules for infinities
  and NaN. Float arithmetic does not raise, division by zero apart.
\<close>

fun fneg :: "pyfloat \<Rightarrow> pyfloat" where
  "fneg (Finite x) = Finite (- x)"
| "fneg PosInf = NegInf"
| "fneg NegInf = PosInf"
| "fneg NaN = NaN"

fun fadd :: "pyfloat \<Rightarrow> pyfloat \<Rightarrow> pyfloat" where
  "fadd (Finite x) (Finite y) = double (x + y)"
| "fadd NaN b = NaN"
| "fadd a NaN = NaN"
| "fadd PosInf NegInf = NaN"
| "fadd NegInf PosInf = NaN"
| "fadd PosInf b = PosInf"
| "fadd NegInf b = NegInf"
| "fadd a PosInf = PosInf"
| "fadd a NegInf = NegInf"

definition fsub :: "pyfloat \<Rightarrow> pyfloat \<Rightarrow> pyfloat" where
  "fsub a b = fadd a (fneg b)"

text \<open>The sign of a float that is not a NaN: \<open>1\<close>, \<open>0\<close> or \<open>- 1\<close>.\<close>

fun fsign :: "pyfloat \<Rightarrow> int" where
  "fsign (Finite x) = (if 0 < x then 1 else if x < 0 then - 1 else 0)"
| "fsign PosInf = 1"
| "fsign NegInf = - 1"
| "fsign NaN = 0"

fun fmul :: "pyfloat \<Rightarrow> pyfloat \<Rightarrow> pyfloat" where
  "fmul (Finite x) (Finite y) = double (x * y)"
| "fmul NaN b = NaN"
| "fmul a NaN = NaN"
| "fmul a b =
     (if fsign a * fsign b = 0 then NaN
      else if 0 < fsign a * fsign b then PosInf else NegInf)"

fun fdiv :: "pyfloat \<Rightarrow> pyfloat \<Rightarrow> pyfloat outcome" where
  "fdiv a (Finite y) =
     (if y = 0 then Raises ZeroDivisionError
      else (case a of
              Finite x \<Rightarrow> Returns (double (x / y))
            | NaN \<Rightarrow> Returns NaN
            | PosInf \<Rightarrow> Returns (if 0 < y then PosInf else NegInf)
            | NegInf \<Rightarrow> Returns (if 0 < y then NegInf else PosInf)))"
| "fdiv a NaN = Returns NaN"
| "fdiv (Finite x) b = Returns (Finite 0)"
| "fdiv a b = Returns NaN"

fun fabs :: "pyfloat \<Rightarrow> pyfloat" where
  "fabs (Finite x) = Finite \<bar>x\<bar>"
| "fabs PosInf = PosInf"
| "fabs NegInf = PosInf"
| "fabs NaN = NaN"

text \<open>\<open>a > b\<close> on floats: false when either is a NaN.\<close>

fun fgt :: "pyfloat \<Rightarrow> pyfloat \<Rightarrow> bool" where
  "fgt (Finite x) (Finite y) = (y < x)"
| "fgt NaN b = False"
| "fgt a NaN = False"
| "fgt PosInf PosInf = False"
| "fgt PosInf b = True"
| "fgt a PosInf = False"
| "fgt NegInf b = False"
| "fgt a NegInf = True"

text \<open>
  \<open>float(i)\<close> for an integer, also the conversion of an integer operand that meets a
  float: the nearest float, or OverflowError when the integer is too large.
\<close>

definition to_float :: "int \<Rightarrow> pyfloat outcome" where
  "to_float i =
     (case double (of_int i) of
        Finite x \<Rightarrow> Returns (Finite x)
      | PosInf \<Rightarrow> Raises OverflowError
      | NegInf \<Rightarrow> Raises OverflowError
      | NaN \<Rightarrow> Raises OverflowError)"

subsection \<open>Values\<close>

text \<open>
  The Python objects that \<^verbatim>\<open>json.loads\<close> produces and that the arithmetic of the
  converter can produce from them and from integers and floats.
\<close>

datatype pyobj =
    PNone
  | PBool bool
  | PInt int
  | PFloat pyfloat
  | PStr string
  | PList "pyobj list"
  | PDict "(string \<times> pyobj) list"

text \<open>A number is an integer (a boolean counts as 0 or 1) or a float.\<close>

datatype number = IntNum int | FloatNum pyfloat

fun as_number :: "pyobj \<Rightarrow> number option" where
  "as_number (PBool b) = Some (IntNum (if b then 1 else 0))"
| "as_number (PInt i) = Some (IntNum i)"
| "as_number (PFloat f) = Some (FloatNum f)"
| "as_number v = None"

text \<open>
  The binary operators \<^verbatim>\<open>+\<close>, \<^verbatim>\<open>-\<close>, \<^verbatim>\<open>*\<close> and \<^verbatim>\<open>/\<close>. Two integers give an exact
  integer (\<^verbatim>\<open>/\<close> gives the nearest float of the quotient); when one operand is a float
  the other is converted to a float. \<^verbatim>\<open>+\<close> also joins two strings or two lists and
  \<^verbatim>\<open>*\<close> repeats a string or a list. Every other combination raises TypeError.
\<close>

fun add_numbers :: "number \<Rightarrow> number \<Rightarrow> pyobj outcome" where
  "add_numbers (IntNum i) (IntNum j) = Returns (PInt (i + j))"
| "add_numbers (IntNum i) (FloatNum g) = and_then (to_float i) (\<lambda>f. Returns (PFloat (fadd f g)))"
| "add_numbers (FloatNum f) (IntNum j) = and_then (to_float j) (\<lambda>g. Returns (PFloat (fadd f g)))"
| "add_numbers (FloatNum f) (FloatNum g) = Returns (PFloat (fadd f g))"

fun sub_numbers :: "number \<Rightarrow> number \<Rightarrow> pyobj outcome" where
  "sub_numbers (IntNum i) (IntNum j) = Returns (PInt (i - j))"
| "sub_numbers (IntNum i) (FloatNum g) = and_then (to_float i) (\<lambda>f. Returns (PFloat (fsub f g)))"
| "sub_numbers (FloatNum f) (IntNum j) = and_then (to_float j) (\<lambda>g. Returns (PFloat (fsub f g)))"
| "sub_numbers (FloatNum f) (FloatNum g) = Returns (PFloat (fsub f g))"

fun mul_numbers :: "number \<Rightarrow> number \<Rightarrow> pyobj outcome" where
  "mul_numbers (IntNum i) (IntNum j) = Returns (PInt (i * j))"
| "mul_numbers (IntNum i) (FloatNum g) = and_then (to_float i) (\<lambda>f. Returns (PFloat (fmul f g)))"
| "mul_numbers (FloatNum f) (IntNum j) = and_then (to_float j) (\<lambda>g. Returns (PFloat (fmul f g)))"
| "mul_numbers (FloatNum f) (FloatNum g) = Returns (PFloat (fmul f g))"

fun div_numbers :: "number \<Rightarrow> number \<Rightarrow> pyobj outcome" where
  "div_numbers (IntNum i) (IntNum j) =
     (if j = 0 then Raises ZeroDivisionError
      else (case double (of_int i / of_int j) of
              Finite x \<Rightarrow> Returns (PFloat (Finite x))
            | PosInf \<Rightarrow> Raises OverflowError
            | NegInf \<Rightarrow> Raises OverflowError
            | NaN \<Rightarrow> Raises OverflowError))"
| "div_numbers (IntNum i) (FloatNum g) =
     and_then (to_float i) (\<lambda>f. and_then (fdiv f g) (\<lambda>q. Returns (PFloat q)))"
| "div_numbers (FloatNum f) (IntNum j) =
     and_then (to_float j) (\<lambda>g. and_then (fdiv f g) (\<lambda>q. Returns (PFloat q)))"
| "div_numbers (FloatNum f) (FloatNum g) = and_then (fdiv f g) (\<lambda>q. Returns (PFloat q))"

definition repeat :: "int \<Rightarrow> 'a list \<Rightarrow> 'a list" where
  "repeat n xs = concat (replicate (nat n) xs)"

definition py_add :: "pyobj \<Rightarrow> pyobj \<Rightarrow> pyobj outcome" where
  "py_add a b =
     (case (as_number a, as_number b) of
        (Some x, Some y) \<Rightarrow> add_numbers x y
      | (Some x, None) \<Rightarrow> Raises TypeError
      | (None, Some y) \<Rightarrow> Raises TypeError
      | (None, None) \<Rightarrow>
          (case (a, b) of
             (PStr s, PStr t) \<Rightarrow> Returns (PStr (s @ t))
           | (PList xs, PList ys) \<Rightarrow> Returns (PList (xs @ ys))
           | other \<Rightarrow> Raises TypeError))"

definition py_sub :: "pyobj \<Rightarrow> pyobj \<Rightarrow> pyobj outcome" where
  "py_sub a b =
     (case (as_number a, as_number b) of
        (Some x, Some y) \<Rightarrow> sub_numbers x y
      | other \<Rightarrow> Raises TypeError)"

definition py_mul :: "pyobj \<Rightarrow> pyobj \<Rightarrow> pyobj outcome" where
  "py_mul a b =
     (case (as_number a, as_number b) of
        (Some x, Some y) \<Rightarrow> mul_numbers x y
      | (None, Some (IntNum n)) \<Rightarrow>
          (case a of
             PStr s \<Rightarrow> Returns (PStr (repeat n s))
           | PList xs \<Rightarrow> Returns (PList (repeat n xs))
           | other \<Rightarrow> Raises TypeError)
      | (Some (IntNum n), None) \<Rightarrow>
          (case b of
             PStr s \<Rightarrow> Returns (PStr (repeat n s))
           | PList xs \<Rightarrow> Returns (PList (repeat n xs))
           | other \<Rightarrow> Raises TypeError)
      | other \<Rightarrow> Raises TypeError)"

definition py_truediv :: "pyobj \<Rightarrow> pyobj \<Rightarrow> pyobj outcome" where
  "py_truediv a b =
     (case (as_number a, as_number b) of
        (Some x, Some y) \<Rightarrow> div_numbers x y
      | other \<Rightarrow> Raises TypeError)"

text \<open>
  \<^verbatim>\<open>abs(v) > t\<close> for a float \<open>t\<close>: \<open>abs\<close> is defined on numbers only and keeps the kind
  of number; an integer is compared with a float by value, without conversion.
\<close>

definition abs_exceeds :: "pyobj \<Rightarrow> pyfloat \<Rightarrow> bool outcome" where
  "abs_exceeds v t =
     (case as_number v of
        None \<Rightarrow> Raises TypeError
      | Some (FloatNum f) \<Rightarrow> Returns (fgt (fabs f) t)
      | Some (IntNum i) \<Rightarrow>
          Returns (case t of
                     Finite y \<Rightarrow> y < of_int \<bar>i\<bar>
                   | PosInf \<Rightarrow> False
                   | NegInf \<Rightarrow> True
                   | NaN \<Rightarrow> False))"


section \<open>The frame codec (class ModbusRTUClient)\<close>

subsection \<open>modbus\_crc\<close>

text \<open>
  One pass of the inner loop \<^verbatim>\<open>for _ in range(8)\<close>: shift right by one, and fold the
  polynomial in when the bit shifted out was set. Python integers are unbounded, so
  the register is an \<open>int\<close>.
\<close>

definition crc_shift :: "int \<Rightarrow> int" where
  "crc_shift crc = (if crc AND 0x0001 \<noteq> 0 then drop_bit 1 crc XOR 0xA001 else drop_bit 1 crc)"

primrec crc_bits :: "nat \<Rightarrow> int \<Rightarrow> int" where
  "crc_bits 0 crc = crc"
| "crc_bits (Suc n) crc = crc_bits n (crc_shift crc)"

definition crc_byte :: "int \<Rightarrow> int \<Rightarrow> int" where
  "crc_byte crc byte = crc_bits 8 (crc XOR byte)"

definition modbus_crc :: "int list \<Rightarrow> int list" where
  "modbus_crc data =
     (let crc = foldl crc_byte 0xFFFF data
      in [crc AND 0xFF, drop_bit 8 crc AND 0xFF])"

subsection \<open>build\_rtu\_request\<close>

text \<open>
  \<^verbatim>\<open>bytearray(frame)\<close> accepts a list of integers in \<open>range(256)\<close> and raises
  ValueError on any other element.
\<close>

definition bytearray :: "int list \<Rightarrow> 8 word list outcome" where
  "bytearray xs =
     (if list_all (\<lambda>x. 0 \<le> x \<and> x < 256) xs then Returns (map word_of_int xs)
      else Raises ValueError)"

definition build_rtu_request :: "int \<Rightarrow> int \<Rightarrow> int \<Rightarrow> int \<Rightarrow> 8 word list outcome" where
  "build_rtu_request slave_addr start_reg reg_count func_code =
     (let frame = [slave_addr,
                   func_code,
                   drop_bit 8 start_reg AND 0xFF,
                   start_reg AND 0xFF,
                   drop_bit 8 reg_count AND 0xFF,
                   reg_count AND 0xFF];
          crc = modbus_crc frame
      in bytearray (frame @ crc))"

subsection \<open>parse\_rtu\_response\<close>

text \<open>
  The function returns a dictionary: either \<^verbatim>\<open>{"error": message}\<close>, with one of four
  messages, or the slave address, the function code and the registers. The four
  messages are named as the specification names them.
\<close>

datatype decode_error = FrameTooShort | ChecksumMismatch | EmptyPayload | UnsupportedFunction

datatype rtu_response = ErrorDict decode_error | ValidDict int int "int list"

text \<open>
  The register loop
  \<^verbatim>\<open>
  for i in range(1, len(data), 2):
      if i + 1 > len(data):
          break
      reg_value = (data[i] << 8) | data[i + 1]
      registers.append(reg_value)
  \<close>
  with \<open>i\<close> the current index. The range yields \<open>i\<close> while \<open>i < len(data)\<close>; reading
  \<open>data[i + 1]\<close> at \<open>i + 1 = len(data)\<close> raises IndexError.
\<close>

function decode_registers :: "int list \<Rightarrow> nat \<Rightarrow> int list \<Rightarrow> int list outcome" where
  "decode_registers data i registers =
     (if i < length data then
        (if i + 1 > length data then Returns registers
         else if i + 1 < length data then
           decode_registers data (i + 2) (registers @ [push_bit 8 (data ! i) OR data ! (i + 1)])
         else Raises IndexError)
      else Returns registers)"
  by pat_completeness auto
termination
  by (relation "measure (\<lambda>(data, i, registers). length data - i)") auto

declare decode_registers.simps [simp del]

text \<open>
  \<^verbatim>\<open>list(response_bytes)\<close> turns the bytes into integers between 0 and 255. With at
  least four elements, \<^verbatim>\<open>response[2:-2]\<close>, \<^verbatim>\<open>response[-2:]\<close> and \<^verbatim>\<open>response[:-2]\<close>
  are the slices written below.
\<close>

definition parse_rtu_response :: "8 word list \<Rightarrow> rtu_response outcome" where
  "parse_rtu_response response_bytes =
     (let response = map uint response_bytes in
      if length response < 4 then Returns (ErrorDict FrameTooShort)
      else
        let slave_addr = response ! 0;
            func_code = response ! 1;
            data = drop 2 (take (length response - 2) response);
            received_crc = drop (length response - 2) response;
            calculated_crc = modbus_crc (take (length response - 2) response)
        in if received_crc \<noteq> calculated_crc then Returns (ErrorDict ChecksumMismatch)
           else if func_code = 0x03 \<or> func_code = 0x04 then
             (if length data < 1 then Returns (ErrorDict EmptyPayload)
              else
                (case decode_registers data 1 [] of
                   Raises e \<Rightarrow> Raises e
                 | Returns registers \<Rightarrow> Returns (ValidDict slave_addr func_code registers)))
           else Returns (ErrorDict UnsupportedFunction))"

text \<open>
  The specification's reading of the register payload: consecutive big-endian 16-bit
  values, two bytes each; a last byte without a partner yields no value.
\<close>

fun be_pairs :: "int list \<Rightarrow> int list" where
  "be_pairs (hi # lo # rest) = (hi * 256 + lo) # be_pairs rest"
| "be_pairs rest = []"

section \<open>Configuration and readings\<close>

datatype SensorType = TEMPERATURE | WIND_SPEED | PRESSURE | HUMIDITY

record SensorConfig =
  sensor_id :: string
  sensor_type :: SensorType
  slave_addr :: int
  start_reg :: int
  reg_count :: int
  func_code :: int
  conversion_formula :: "string option"
  unit :: string

record IOModuleConfig =
  module_id :: string
  ip :: string
  port :: int
  sensors :: "SensorConfig list"
  read_interval :: real
  timeout :: real

text \<open>
  The names of the attributes of an \<open>IOModuleConfig\<close> object, as the dataclass declares
  them. Reading any other attribute raises AttributeError.
\<close>

definition IOModuleConfig_attributes :: "string list" where
  "IOModuleConfig_attributes =
     [''module_id'', ''ip'', ''port'', ''sensors'', ''read_interval'', ''timeout'']"

definition hasattr_IOModuleConfig :: "string \<Rightarrow> bool" where
  "hasattr_IOModuleConfig name = (name \<in> set IOModuleConfig_attributes)"

text \<open>
  A point in time (\<^verbatim>\<open>datetime.now()\<close>) is a number of microseconds; only the order of
  two points matters. A Python float is modelled by a real number: rounding is not
  modelled.
\<close>

type_synonym datetime = nat

text \<open>
  The class EnhancedSensorData. Its attributes \<open>sensor_id\<close>, \<open>sensor_type\<close>, \<open>value\<close>,
  \<open>raw_value\<close>, \<open>timestamp\<close> and \<open>quality\<close> carry the prefix \<open>sd_\<close> here.
\<close>

record EnhancedSensorData =
  sd_sensor_id :: string
  sd_sensor_type :: SensorType
  sd_value :: real
  sd_raw_value :: int
  sd_timestamp :: datetime
  sd_quality :: string

section \<open>The value converter (apply\_conversion\_formula)\<close>

text \<open>
  \<^verbatim>\<open>json.loads\<close> is library code and is a parameter of the model: it maps the formula
  string to the decoded document, or to \<open>None\<close> when it raises. Of a decoded document
  the converter only looks at whether it is an object, at its member \<open>type\<close> and at
  its members \<open>a\<close> and \<open>b\<close>. \<open>Object t a b\<close> is an object whose member \<open>type\<close> is the
  string \<open>t\<close> (\<open>None\<close>: no such member, or not a string) and whose members \<open>a\<close> and
  \<open>b\<close>, where present, are the numbers \<open>a\<close> and \<open>b\<close>.
\<close>

datatype formula_json = NotAnObject | Object "string option" "real option" "real option"

type_synonym json_loads = "string \<Rightarrow> formula_json option"

text \<open>
  The first part of the function: the \<^verbatim>\<open>try\<close> block, entered when the formula string
  is not empty. \<open>Some v\<close> is \<^verbatim>\<open>return a * raw_value + b\<close>; \<open>None\<close> is every way of
  leaving the block without returning (a type other than \<open>linear\<close>, or an exception,
  which \<^verbatim>\<open>except: pass\<close> swallows).
\<close>

definition formula_value :: "json_loads \<Rightarrow> int \<Rightarrow> SensorConfig \<Rightarrow> real option" where
  "formula_value loads raw_value sensor_config =
     (case conversion_formula sensor_config of
        None \<Rightarrow> None
      | Some text \<Rightarrow>
          if text = [] then None
          else
            (case loads text of
               None \<Rightarrow> None
             | Some NotAnObject \<Rightarrow> None
             | Some (Object t a b) \<Rightarrow>
                 if t = Some ''linear'' then
                   Some ((case a of None \<Rightarrow> 1.0 | Some x \<Rightarrow> x) * real_of_int raw_value
                         + (case b of None \<Rightarrow> 0.0 | Some y \<Rightarrow> y))
                 else None))"

definition apply_conversion_formula :: "json_loads \<Rightarrow> int \<Rightarrow> SensorConfig \<Rightarrow> real" where
  "apply_conversion_formula loads raw_value sensor_config =
     (case formula_value loads raw_value sensor_config of
        Some v \<Rightarrow> v
      | None \<Rightarrow>
          (case sensor_type sensor_config of
             TEMPERATURE \<Rightarrow>
               if prefix ''tem_'' (sensor_id sensor_config) then real_of_int raw_value / 10.0
               else ((real_of_int raw_value / 249) - 4) * 7.5 - 40
           | PRESSURE \<Rightarrow> ((real_of_int raw_value / 249) - 4) * 7.5
           | WIND_SPEED \<Rightarrow> real_of_int raw_value * 0.1
           | HUMIDITY \<Rightarrow> real_of_int raw_value * 0.1))"

section \<open>The poller (class IOModuleReader)\<close>

subsection \<open>State\<close>

text \<open>
  \<open>self.sock\<close> is \<open>None\<close> or a socket object, which is connected or not. The callback
  handed to the constructor is a reference: the manager hands over its own
  \<open>on_data_received\<close>.
\<close>

datatype socket = Connected | Unconnected

datatype callback_ref = OnDataReceived | OtherCallback

text \<open>
  What the poller does to the outside, in order: closing its socket, trying to connect
  (with the result), sending the request for a sensor, and calling the data callback.
\<close>

datatype event =
    EvClose
  | EvConnect bool
  | EvRequest string
  | EvCallback EnhancedSensorData

text \<open>
  The attributes of the thread object; the dictionary \<open>stats\<close> is flattened into its
  four entries. \<open>trace\<close> is not an attribute of the source: it records the events.
\<close>

record IOModuleReader =
  config :: IOModuleConfig
  data_callback :: callback_ref
  running :: bool
  sock :: "socket option"
  last_values :: "string \<rightharpoonup> real"
  read_count :: nat
  success_count :: nat
  fail_count :: nat
  last_read_time :: "datetime option"
  trace :: "event list"

definition IOModuleReader_init :: "IOModuleConfig \<Rightarrow> callback_ref \<Rightarrow> IOModuleReader" where
  "IOModuleReader_init cfg callback =
     \<lparr> config = cfg, data_callback = callback, running = False, sock = None,
       last_values = Map.empty,
       read_count = 0, success_count = 0, fail_count = 0, last_read_time = None,
       trace = [] \<rparr>"

subsection \<open>connect and disconnect\<close>

text \<open>
  \<open>connect\<close> closes a socket it still holds, creates a new one and connects it; the
  argument says whether the connection is established. On failure the new, unconnected
  socket stays in \<open>self.sock\<close>.
\<close>

definition connect :: "bool \<Rightarrow> IOModuleReader \<Rightarrow> IOModuleReader \<times> bool" where
  "connect established r =
     (let r1 = (case sock r of
                  None \<Rightarrow> r
                | Some s \<Rightarrow> r\<lparr>trace := trace r @ [EvClose]\<rparr>)
      in if established
         then (r1\<lparr>sock := Some Connected, trace := trace r1 @ [EvConnect True]\<rparr>, True)
         else (r1\<lparr>sock := Some Unconnected, trace := trace r1 @ [EvConnect False]\<rparr>, False))"

definition disconnect :: "IOModuleReader \<Rightarrow> IOModuleReader" where
  "disconnect r =
     (case sock r of
        None \<Rightarrow> r
      | Some s \<Rightarrow> r\<lparr>sock := None, trace := trace r @ [EvClose]\<rparr>)"

subsection \<open>read\_sensor\_data\<close>

text \<open>
  The gateway is the environment of a read. \<open>send_ok\<close> says whether \<^verbatim>\<open>sendall\<close>
  succeeds on a connected socket; \<open>recvs\<close> lists the results of the calls of
  \<^verbatim>\<open>recv\<close> made before the deadline: a chunk of bytes (possibly empty) or an exception.
  When the list is used up the deadline has passed and \<^verbatim>\<open>socket.timeout\<close> is raised.
  \<open>stamp\<close> is \<^verbatim>\<open>datetime.now()\<close> at the end of the read.
\<close>

datatype recv_result = Chunk "8 word list" | RecvRaises

record exchange =
  send_ok :: bool
  recvs :: "recv_result list"
  stamp :: datetime

text \<open>
  The receive loop: \<open>Some\<close> of the bytes once a non-empty chunk completes the frame
  (at least 5 bytes and at least \<open>1 + 1 + 1 + data_len + 2\<close>), \<open>None\<close> when \<^verbatim>\<open>recv\<close>
  raises or the deadline passes.
\<close>

fun recv_loop :: "8 word list \<Rightarrow> recv_result list \<Rightarrow> 8 word list option" where
  "recv_loop response_bytes [] = None"
| "recv_loop response_bytes (RecvRaises # rest) = None"
| "recv_loop response_bytes (Chunk chunk # rest) =
     (if chunk = [] then recv_loop response_bytes rest
      else
        (let response_bytes = response_bytes @ chunk in
         if length response_bytes \<ge> 5
         then (let data_len = unat (response_bytes ! 2);
                   full_frame_len = 1 + 1 + 1 + data_len + 2
               in if length response_bytes \<ge> full_frame_len then Some response_bytes
                  else recv_loop response_bytes rest)
         else recv_loop response_bytes rest))"

text \<open>
  Every exception inside the function is caught and turns into the result \<open>None\<close>:
  a request that is not a byte string, \<^verbatim>\<open>sendall\<close> on \<open>None\<close> or on an unconnected
  socket, a failed send, a failed or timed-out receive, an exception of the parser, and
  \<^verbatim>\<open>registers[0]\<close> on an empty list. The function never touches \<open>self.sock\<close>.
\<close>

definition read_sensor_data ::
  "json_loads \<Rightarrow> exchange \<Rightarrow> SensorConfig \<Rightarrow> IOModuleReader
     \<Rightarrow> EnhancedSensorData option \<times> IOModuleReader" where
  "read_sensor_data loads ex sensor_config r =
     (case build_rtu_request (slave_addr sensor_config) (start_reg sensor_config)
             (reg_count sensor_config) (func_code sensor_config) of
        Raises e \<Rightarrow> (None, r)
      | Returns request \<Rightarrow>
          (case sock r of
             None \<Rightarrow> (None, r)
           | Some s \<Rightarrow>
               (let r1 = r\<lparr>trace := trace r @ [EvRequest (sensor_id sensor_config)]\<rparr> in
                if s = Connected then
                  (if send_ok ex then
                     (case recv_loop [] (recvs ex) of
                        None \<Rightarrow> (None, r1)
                      | Some response_bytes \<Rightarrow>
                          (case parse_rtu_response response_bytes of
                             Raises e \<Rightarrow> (None, r1)
                           | Returns (ErrorDict e) \<Rightarrow> (None, r1)
                           | Returns (ValidDict slave func registers) \<Rightarrow>
                               if int (length registers) < reg_count sensor_config
                               then (None, r1)
                               else
                                 (case registers of
                                    [] \<Rightarrow> (None, r1)
                                  | raw_value # others \<Rightarrow>
                                      (Some \<lparr> sd_sensor_id = sensor_id sensor_config,
                                               sd_sensor_type = sensor_type sensor_config,
                                               sd_value = apply_conversion_formula loads raw_value
                                                            sensor_config,
                                               sd_raw_value = raw_value,
                                               sd_timestamp = stamp ex,
                                               sd_quality = ''good'' \<rparr>,
                                       r1))))
                   else (None, r1))
                else (None, r1))))"

subsection \<open>run\<close>

text \<open>
  The change detection of the loop body, for the data of one sensor:
  \<^verbatim>\<open>
  last_value = self.last_values.get(sensor_config.sensor_id)
  if last_value is None or abs(sensor_data.value - last_value) > 0.1:
      self.data_callback(sensor_data)
      self.last_values[sensor_config.sensor_id] = sensor_data.value
  \<close>
  \<open>raises\<close> says whether the callback raises; the second component of the result says
  whether an exception leaves the block.
\<close>

definition detect_change ::
  "bool \<Rightarrow> SensorConfig \<Rightarrow> EnhancedSensorData \<Rightarrow> IOModuleReader \<Rightarrow> IOModuleReader \<times> bool" where
  "detect_change raises sensor_config sensor_data r =
     (let last_value = last_values r (sensor_id sensor_config) in
      if (case last_value of
            None \<Rightarrow> True
          | Some v \<Rightarrow> \<bar>sd_value sensor_data - v\<bar> > 0.1)
      then
        (let r1 = r\<lparr>trace := trace r @ [EvCallback sensor_data]\<rparr> in
         if raises then (r1, True)
         else (r1\<lparr>last_values := (last_values r1)(sensor_id sensor_config \<mapsto> sd_value sensor_data)\<rparr>,
               False))
      else (r, False))"

text \<open>
  The environment of one pass of the \<^verbatim>\<open>while\<close> loop: whether a reconnection is
  established, the exchange of the \<open>i\<close>-th sensor, whether the callback raises when it
  is called for the \<open>i\<close>-th sensor, and \<^verbatim>\<open>datetime.now()\<close> at the end of the pass.
\<close>

record cycle_env =
  reconnect :: bool
  exchanges :: "nat \<Rightarrow> exchange"
  callback_raises :: "nat \<Rightarrow> bool"
  cycle_end :: datetime

text \<open>
  How the \<^verbatim>\<open>try\<close> block of a pass ends: with \<open>read_success\<close> true, with
  \<open>read_success\<close> false, or with an exception.
\<close>

datatype attempt = Succeeded | Failed | Raised

text \<open>
  The \<^verbatim>\<open>for\<close> loop over the sensors, \<open>i\<close> counting them: a failed read sets
  \<open>read_success\<close> to false and leaves the loop (\<^verbatim>\<open>break\<close>).
\<close>

fun read_sensors ::
  "json_loads \<Rightarrow> cycle_env \<Rightarrow> nat \<Rightarrow> SensorConfig list \<Rightarrow> IOModuleReader
     \<Rightarrow> IOModuleReader \<times> attempt" where
  "read_sensors loads env i [] r = (r, Succeeded)"
| "read_sensors loads env i (sensor_config # rest) r =
     (case read_sensor_data loads (exchanges env i) sensor_config r of
        (None, r1) \<Rightarrow> (r1, Failed)
      | (Some sensor_data, r1) \<Rightarrow>
          (case detect_change (callback_raises env i) sensor_config sensor_data r1 of
             (r2, True) \<Rightarrow> (r2, Raised)
           | (r2, False) \<Rightarrow> read_sensors loads env (i + 1) rest r2))"

text \<open>
  The \<^verbatim>\<open>try\<close> block up to the counters: reconnect when \<open>self.sock\<close> is \<open>None\<close>, then
  read the sensors unless the reconnection failed.
\<close>

definition try_reads ::
  "json_loads \<Rightarrow> cycle_env \<Rightarrow> IOModuleReader \<Rightarrow> IOModuleReader \<times> attempt" where
  "try_reads loads env r =
     (case sock r of
        None \<Rightarrow>
          (case connect (reconnect env) r of
             (r1, False) \<Rightarrow> (r1, Failed)
           | (r1, True) \<Rightarrow> read_sensors loads env 0 (sensors (config r1)) r1)
      | Some s \<Rightarrow> read_sensors loads env 0 (sensors (config r)) r)"

text \<open>
  One pass of the \<^verbatim>\<open>while self.running\<close> loop: count the attempt, try, count the
  success or the failure (the \<^verbatim>\<open>except\<close> branch also disconnects), and note the time.
\<close>

definition cycle :: "json_loads \<Rightarrow> cycle_env \<Rightarrow> IOModuleReader \<Rightarrow> IOModuleReader" where
  "cycle loads env r =
     (case try_reads loads env (r\<lparr>read_count := read_count r + 1\<rparr>) of
        (r1, Succeeded) \<Rightarrow>
          r1\<lparr>success_count := success_count r1 + 1, last_read_time := Some (cycle_end env)\<rparr>
      | (r1, Failed) \<Rightarrow>
          r1\<lparr>fail_count := fail_count r1 + 1, last_read_time := Some (cycle_end env)\<rparr>
      | (r1, Raised) \<Rightarrow>
          (disconnect (r1\<lparr>fail_count := fail_count r1 + 1\<rparr>))
            \<lparr>last_read_time := Some (cycle_end env)\<rparr>)"

text \<open>
  The thread's main function. \<open>first\<close> says whether the first connection is established;
  \<open>envs\<close> lists the passes made until another thread's \<open>stop\<close> has cleared \<open>running\<close>.
\<close>

definition cycles :: "json_loads \<Rightarrow> cycle_env list \<Rightarrow> IOModuleReader \<Rightarrow> IOModuleReader" where
  "cycles loads envs r = foldl (\<lambda>r env. cycle loads env r) r envs"

definition run :: "json_loads \<Rightarrow> bool \<Rightarrow> cycle_env list \<Rightarrow> IOModuleReader \<Rightarrow> IOModuleReader" where
  "run loads first envs r =
     (case connect first (r\<lparr>running := True\<rparr>) of
        (r1, False) \<Rightarrow> r1
      | (r1, True) \<Rightarrow> disconnect ((cycles loads envs r1)\<lparr>running := False\<rparr>))"

definition stop :: "IOModuleReader \<Rightarrow> IOModuleReader" where
  "stop r = r\<lparr>running := False\<rparr>"

section \<open>The manager (class MultiIOModuleManager)\<close>

text \<open>
  A registered callback acts on a state \<open>'w\<close> outside the manager; it returns the new
  state and whether it raised an exception. \<open>stopped\<close> is not an attribute of the source:
  it collects the readers that \<open>remove_module\<close> has stopped and discarded.
\<close>

type_synonym 'w callback = "EnhancedSensorData \<Rightarrow> 'w \<Rightarrow> 'w \<times> bool"

record 'w MultiIOModuleManager =
  modules :: "string \<rightharpoonup> IOModuleReader"
  all_data :: "EnhancedSensorData list"
  data_callbacks :: "'w callback list"
  stopped :: "IOModuleReader list"

definition MultiIOModuleManager_init :: "'w MultiIOModuleManager" where
  "MultiIOModuleManager_init =
     \<lparr> modules = Map.empty, all_data = [], data_callbacks = [], stopped = [] \<rparr>"

definition remove_module :: "string \<Rightarrow> 'w MultiIOModuleManager \<Rightarrow> 'w MultiIOModuleManager" where
  "remove_module mid m =
     (case modules m mid of
        None \<Rightarrow> m
      | Some reader \<Rightarrow> m\<lparr>modules := (modules m)(mid := None),
                           stopped := stopped m @ [stop reader]\<rparr>)"

text \<open>
  \<open>add_module\<close> ends with a log message that reads \<^verbatim>\<open>config.config.port\<close>; the result
  is the state of the manager together with the outcome of the call.
\<close>

definition add_module ::
  "IOModuleConfig \<Rightarrow> 'w MultiIOModuleManager \<Rightarrow> unit outcome \<times> 'w MultiIOModuleManager" where
  "add_module cfg m =
     (let m1 = (case modules m (module_id cfg) of
                  None \<Rightarrow> m
                | Some old \<Rightarrow> remove_module (module_id cfg) m);
          reader = IOModuleReader_init cfg OnDataReceived;
          m2 = m1\<lparr>modules := (modules m1)(module_id cfg \<mapsto> reader)\<rparr>
      in if hasattr_IOModuleConfig ''config'' then (Returns (), m2)
         else (Raises AttributeError, m2))"

definition add_data_callback :: "'w callback \<Rightarrow> 'w MultiIOModuleManager \<Rightarrow> 'w MultiIOModuleManager" where
  "add_data_callback callback m = m\<lparr>data_callbacks := data_callbacks m @ [callback]\<rparr>"

text \<open>
  What \<open>on_data_received\<close> does, in order: taking and releasing the lock, appending to
  the history, cutting the history, calling the callback with a given index in the list,
  and logging the error of that callback.
\<close>

datatype manager_event =
    LockAcquired
  | Appended EnhancedSensorData
  | Truncated
  | LockReleased
  | Called nat
  | ErrorLogged nat

text \<open>The block under the lock: append, then keep the last 1000 entries.\<close>

definition store :: "EnhancedSensorData \<Rightarrow> EnhancedSensorData list \<Rightarrow> EnhancedSensorData list" where
  "store sensor_data history =
     (let history = history @ [sensor_data] in
      if length history > 1000 then drop (length history - 1000) history else history)"

definition store_events :: "EnhancedSensorData \<Rightarrow> EnhancedSensorData list \<Rightarrow> manager_event list" where
  "store_events sensor_data history =
     [LockAcquired, Appended sensor_data]
     @ (if length (history @ [sensor_data]) > 1000 then [Truncated] else [])
     @ [LockReleased]"

text \<open>
  The loop over the registered callbacks, each call inside its own \<^verbatim>\<open>try\<close>; \<open>i\<close> is
  the index of the next callback.
\<close>

fun call_callbacks ::
  "'w callback list \<Rightarrow> nat \<Rightarrow> EnhancedSensorData \<Rightarrow> 'w \<Rightarrow> 'w \<times> manager_event list" where
  "call_callbacks [] i sensor_data w = (w, [])"
| "call_callbacks (callback # rest) i sensor_data w =
     (case callback sensor_data w of
        (w1, raised) \<Rightarrow>
          (case call_callbacks rest (i + 1) sensor_data w1 of
             (w2, evs) \<Rightarrow> (w2, Called i # (if raised then [ErrorLogged i] else []) @ evs)))"

definition on_data_received ::
  "EnhancedSensorData \<Rightarrow> 'w MultiIOModuleManager \<times> 'w
     \<Rightarrow> ('w MultiIOModuleManager \<times> 'w) \<times> manager_event list" where
  "on_data_received sensor_data mw =
     (case mw of (m, w) \<Rightarrow>
        (let m1 = m\<lparr>all_data := store sensor_data (all_data m)\<rparr> in
         case call_callbacks (data_callbacks m1) 0 sensor_data w of
           (w1, evs) \<Rightarrow> ((m1, w1), store_events sensor_data (all_data m) @ evs)))"

text \<open>
  \<open>get_latest_data\<close>: a filter is applied when its argument is given and, for the
  sensor identifier, not empty. \<^verbatim>\<open>sort(key=..., reverse=True)\<close> is stable: it gives the
  result of sorting the reversed list in ascending order, reversed.
\<close>

definition sort_reverse :: "('a \<Rightarrow> nat) \<Rightarrow> 'a list \<Rightarrow> 'a list" where
  "sort_reverse key xs = rev (sort_key key (rev xs))"

definition get_latest_data ::
  "string option \<Rightarrow> SensorType option \<Rightarrow> 'w MultiIOModuleManager \<Rightarrow> EnhancedSensorData list" where
  "get_latest_data sid stype m =
     (let data = all_data m;
          data = (case sid of
                    None \<Rightarrow> data
                  | Some i \<Rightarrow> if i = [] then data else filter (\<lambda>d. sd_sensor_id d = i) data);
          data = (case stype of
                    None \<Rightarrow> data
                  | Some t \<Rightarrow> filter (\<lambda>d. sd_sensor_type d = t) data)
      in sort_reverse sd_timestamp data)"

section \<open>Notions of the specification\<close>



text \<open>
  A sequence of calls of \<open>on_data_received\<close>, one for each reading; a sequence of calls
  of \<open>add_data_callback\<close>, one for each callback, in the order of the list; the indices
  of the callbacks that a list of events calls, in order; and the events that belong to
  the block under the lock.
\<close>

definition ingest_all ::
  "EnhancedSensorData list \<Rightarrow> 'w MultiIOModuleManager \<times> 'w \<Rightarrow> 'w MultiIOModuleManager \<times> 'w" where
  "ingest_all readings mw = foldl (\<lambda>mw sensor_data. fst (on_data_received sensor_data mw)) mw readings"

definition register_all ::
  "'w callback list \<Rightarrow> 'w MultiIOModuleManager \<Rightarrow> 'w MultiIOModuleManager" where
  "register_all callbacks m = foldl (\<lambda>m callback. add_data_callback callback m) m callbacks"

fun called :: "manager_event list \<Rightarrow> nat list" where
  "called [] = []"
| "called (Called i # evs) = i # called evs"
| "called (ev # evs) = called evs"

fun is_lock_event :: "manager_event \<Rightarrow> bool" where
  "is_lock_event (Called i) = False"
| "is_lock_event (ErrorLogged i) = False"
| "is_lock_event ev = True"

section \<open>A gateway with one sensor\<close>

text \<open>
  The first sensor and the module of the source's default configuration, cut down to that
  sensor; a formula decoder for configurations without formulas; four exchanges: nothing
  arrives before the deadline, the send fails, the receive fails after two bytes, and the
  gateway answers with the register value 100; and a pass in which every exchange is the given one and the
  callback returns.
\<close>

definition tem_ch01 :: SensorConfig where
  "tem_ch01 = \<lparr> sensor_id = ''tem_ch01'', sensor_type = TEMPERATURE, slave_addr = 1,
                start_reg = 0, reg_count = 1, func_code = 0x04, conversion_formula = None,
                unit = ''C'' \<rparr>"

definition temp_module_01 :: IOModuleConfig where
  "temp_module_01 = \<lparr> module_id = ''temp_module_01'', ip = ''192.168.0.101'', port = 8234,
                      sensors = [tem_ch01], read_interval = 1.0, timeout = 5.0 \<rparr>"

definition no_formula :: json_loads where
  "no_formula text = None"

definition timed_out :: exchange where
  "timed_out = \<lparr> send_ok = True, recvs = [], stamp = 1 \<rparr>"

definition send_failed :: exchange where
  "send_failed = \<lparr> send_ok = False, recvs = [], stamp = 1 \<rparr>"

definition recv_failed :: exchange where
  "recv_failed = \<lparr> send_ok = True, recvs = [Chunk [0x01, 0x04], RecvRaises], stamp = 1 \<rparr>"

definition answered :: exchange where
  "answered = \<lparr> send_ok = True,
                recvs = [Chunk [0x01, 0x04, 0x02, 0x00, 0x64, 0xB8, 0xDB]],
                stamp = 2 \<rparr>"

definition pass_with :: "exchange \<Rightarrow> datetime \<Rightarrow> cycle_env" where
  "pass_with ex t = \<lparr> reconnect = True, exchanges = (\<lambda>i. ex),
                      callback_raises = (\<lambda>i. False), cycle_end = t \<rparr>"


definition reading_at :: "datetime \<Rightarrow> EnhancedSensorData" where
  "reading_at t = \<lparr> sd_sensor_id = ''tem_ch01'', sd_sensor_type = TEMPERATURE, sd_value = 10,
                    sd_raw_value = 100, sd_timestamp = t, sd_quality = ''good'' \<rparr>"

section \<open>Properties of the frame codec\<close>

subsection \<open>Bytes and bit operations\<close>

lemma and_255: "(x::int) AND 0xFF = x mod 256"
proof -
  have "x AND mask 8 = take_bit 8 x" by (simp add: take_bit_eq_mask)
  then show ?thesis by (simp add: take_bit_eq_mod mask_eq_exp_minus_1)
qed

lemma drop_8: "drop_bit 8 (x::int) = x div 256"
  by (simp add: drop_bit_eq_div)

lemma be_or:
  assumes "0 \<le> lo" and "lo < 256"
  shows "push_bit 8 (hi::int) OR lo = hi * 256 + lo"
proof -
  have self: "take_bit 8 lo = lo" using assms by (simp add: take_bit_int_eq_self)
  then have "push_bit 8 hi OR lo = concat_bit 8 lo hi"
    by (simp add: concat_bit_def or.commute)
  also have "\<dots> = take_bit 8 lo + push_bit 8 hi" by (rule concat_bit_eq)
  finally show ?thesis using self by (simp add: push_bit_eq_mult)
qed

lemma modbus_crc_bytes:
  "\<exists>lo hi. modbus_crc data = [lo, hi] \<and> 0 \<le> lo \<and> lo < 256 \<and> 0 \<le> hi \<and> hi < 256"
  by (simp add: modbus_crc_def Let_def and_255)

lemma uint_byte_range: "0 \<le> uint (b :: 8 word) \<and> uint b < 256"
  using uint_lt2p [of b] by simp

subsection \<open>The register loop\<close>

lemma decode_registers_even:
  assumes "i \<le> length data" and "even (length data - i)"
    and "\<forall>b \<in> set data. 0 \<le> b \<and> b < 256"
  shows "decode_registers data i registers = Returns (registers @ be_pairs (drop i data))"
  using assms
proof (induction data i registers rule: decode_registers.induct)
  case (1 data i registers)
  show ?case
  proof (cases "i < length data")
    case False
    with 1 show ?thesis by (simp add: decode_registers.simps)
  next
    case True
    have lt: "i + 1 < length data"
    proof (rule ccontr)
      assume "\<not> i + 1 < length data"
      with True have "length data - i = 1" by simp
      with "1.prems"(2) show False by simp
    qed
    have d: "drop i data = data ! i # data ! (i + 1) # drop (i + 2) data"
      using True lt by (simp add: Cons_nth_drop_Suc [symmetric])
    have inr: "0 \<le> data ! (i + 1)" "data ! (i + 1) < 256" using lt "1.prems"(3) by auto
    have ev: "even (length data - (i + 2))" using "1.prems"(2) lt by auto
    have "decode_registers data i registers =
          decode_registers data (i + 2) (registers @ [push_bit 8 (data ! i) OR data ! (i + 1)])"
      using True lt by (subst decode_registers.simps) simp
    also have "\<dots> = Returns ((registers @ [push_bit 8 (data ! i) OR data ! (i + 1)])
                         @ be_pairs (drop (i + 2) data))"
      using "1.IH" True lt ev "1.prems"(3) by simp
    finally show ?thesis using d inr by (simp add: be_or)
  qed
qed

lemma decode_registers_odd:
  assumes "i \<le> length data" and "odd (length data - i)"
  shows "decode_registers data i registers = Raises IndexError"
  using assms
proof (induction data i registers rule: decode_registers.induct)
  case (1 data i registers)
  from "1.prems" have True: "i < length data" by (cases "i = length data") auto
  show ?case
  proof (cases "i + 1 < length data")
    case False
    with True show ?thesis by (subst decode_registers.simps) simp
  next
    case lt: True
    have od: "odd (length data - (i + 2))" using "1.prems"(2) lt by auto
    have "decode_registers data i registers =
          decode_registers data (i + 2) (registers @ [push_bit 8 (data ! i) OR data ! (i + 1)])"
      using True lt by (subst decode_registers.simps) simp
    then show ?thesis using "1.IH" True lt od by simp
  qed
qed

subsection \<open>The shape of a frame and of the parser's answer\<close>

lemma parse_frame:
  "parse_rtu_response (addr # fc # data @ [c1, c2]) =
     (if [uint c1, uint c2] \<noteq> modbus_crc (map uint (addr # fc # data)) then Returns (ErrorDict ChecksumMismatch)
      else if uint fc = 3 \<or> uint fc = 4 then
        (if data = [] then Returns (ErrorDict EmptyPayload)
         else (case decode_registers (map uint data) 1 [] of
                 Raises e \<Rightarrow> Raises e
               | Returns registers \<Rightarrow> Returns (ValidDict (uint addr) (uint fc) registers)))
      else Returns (ErrorDict UnsupportedFunction))"
  by (simp add: parse_rtu_response_def Let_def)

lemma frame_shape:
  assumes "4 \<le> length (bs :: 'a list)"
  shows "\<exists>addr fc data c1 c2. bs = addr # fc # data @ [c1, c2]"
proof -
  from assms obtain addr fc rest where bs: "bs = addr # fc # rest" and len: "2 \<le> length rest"
    by (cases bs; cases "tl bs") auto
  from len obtain r1 c2 where r1: "rest = r1 @ [c2]"
    by (cases rest rule: rev_cases) auto
  with len obtain data c1 where "r1 = data @ [c1]"
    by (cases r1 rule: rev_cases) auto
  with bs r1 show ?thesis by simp
qed

lemma uint_fc: "(uint (fc :: 8 word) = 3 \<or> uint fc = 4) = (fc = 3 \<or> fc = 4)"
  by (simp add: word_uint_eq_iff)

lemma parse_rtu_response_odd_payload:
  assumes "[uint c1, uint c2] = modbus_crc (map uint (addr # fc # byte_count # payload))"
    and "fc = 3 \<or> fc = 4" and "odd (length payload)"
  shows "parse_rtu_response (addr # fc # (byte_count # payload) @ [c1, c2]) = Raises IndexError"
proof -
  have "decode_registers (map uint (byte_count # payload)) 1 [] = Raises IndexError"
    using assms(3) by (intro decode_registers_odd) auto
  then show ?thesis using assms(1,2) uint_fc [of fc] by (subst parse_frame) simp
qed

subsection \<open>Claims about the frame codec\<close>

text \<open>
  C1 (the parser is total, and an odd trailing payload byte ends the decoding without an
  error). The guard \<^verbatim>\<open>if i + 1 > len(data): break\<close> never fires inside
  \<^verbatim>\<open>range(1, len(data), 2)\<close>, so with an odd number of bytes after the byte count the
  read of \<^verbatim>\<open>data[i + 1]\<close> raises IndexError. The frame below has slave address 1,
  function code 4, declared byte count 1, the single payload byte 0x12 and a correct
  checksum: the parser raises instead of returning the registers decoded so far.
\<close>

theorem parse_rtu_response_odd_trailing_byte:
  "parse_rtu_response [0x01, 0x04, 0x01, 0x12, 0xC1, 0x84] = Raises IndexError"
  by code_simp

text \<open>
  C3, as stated (for all inputs the request is the 8-byte frame), fails when the slave
  address or the function code is not a byte: neither is masked, and the conversion to a
  bytearray raises ValueError.
\<close>

theorem build_rtu_request_slave_addr_counterexample:
  "build_rtu_request 256 0 1 4 = Raises ValueError"
  by code_simp

text \<open>
  C3, amended: for a slave address \<open>sa\<close> and a function code \<open>fc\<close> between 0 and 255,
  and any integers \<open>sr\<close> (start register) and \<open>rc\<close> (register count), the request is the
  8-byte frame [slave address, function code, high and low byte of the start register,
  high and low byte of the register count, checksum low, checksum high], where the two register fields are the
  big-endian encoding of the value modulo 65536 and the checksum is \<open>modbus_crc\<close> of the
  first six bytes. The checksum of 01 04 00 00 00 01 is 31 CA.
\<close>

theorem build_rtu_request_frame:
  assumes "0 \<le> sa" and "sa < 256" and "0 \<le> fc" and "fc < 256"
  shows "\<exists>crc_lo crc_hi frame.
           modbus_crc [sa, fc,
                       sr div 256 mod 256, sr mod 256,
                       rc div 256 mod 256, rc mod 256] = [crc_lo, crc_hi]
         \<and> build_rtu_request sa sr rc fc = Returns frame
         \<and> map uint frame = [sa, fc,
                              sr div 256 mod 256, sr mod 256,
                              rc div 256 mod 256, rc mod 256,
                              crc_lo, crc_hi]
         \<and> 256 * (sr div 256 mod 256) + sr mod 256 = sr mod 65536
         \<and> 256 * (rc div 256 mod 256) + rc mod 256 = rc mod 65536
         \<and> modbus_crc [0x01, 0x04, 0x00, 0x00, 0x00, 0x01] = [0x31, 0xCA]"
proof -
  let ?six = "[sa, fc, sr div 256 mod 256, sr mod 256,
               rc div 256 mod 256, rc mod 256]"
  obtain lo hi where crc: "modbus_crc ?six = [lo, hi]"
    and rng: "0 \<le> lo" "lo < 256" "0 \<le> hi" "hi < 256"
    using modbus_crc_bytes [of ?six] by blast
  have build: "build_rtu_request sa sr rc fc
                 = Returns (map word_of_int (?six @ [lo, hi]))"
    using assms crc rng by (simp add: build_rtu_request_def bytearray_def and_255 drop_8 Let_def)
  have u: "\<And>x::int. 0 \<le> x \<Longrightarrow> x < 256 \<Longrightarrow> uint (word_of_int x :: 8 word) = x"
    by (simp add: uint_word_of_int take_bit_int_eq_self)
  have bytes: "map uint (map word_of_int (?six @ [lo, hi]) :: 8 word list) = ?six @ [lo, hi]"
    using assms rng by (simp add: u)
  have golden: "modbus_crc [0x01, 0x04, 0x00, 0x00, 0x00, 0x01] = [0x31, 0xCA]"
    by code_simp
  have be: "256 * (x div 256 mod 256) + x mod 256 = x mod 65536" for x :: int
    using zmod_zmult2_eq [of 256 x 256] by simp
  show ?thesis using crc build bytes golden be by auto
qed

theorem build_rtu_request_frame_witness:
  "(0::int) \<le> 1 \<and> (1::int) < 256 \<and> (0::int) \<le> 4 \<and> (4::int) < 256
   \<and> (\<exists>frame. build_rtu_request 1 0 1 4 = Returns frame
         \<and> map uint frame = [0x01, 0x04, 0x00, 0x00, 0x00, 0x01, 0x31, 0xCA])"
  using build_rtu_request_frame [of 1 4 0 1] by auto

text \<open>
  C4, as stated, fails on a frame whose declared byte count is zero: the parser looks at
  the number of bytes between the function code and the checksum, not at the declared
  count, and answers with an empty register list.
\<close>

theorem parse_rtu_response_zero_count_counterexample:
  "parse_rtu_response [0x01, 0x04, 0x00, 0x22, 0xC0] = Returns (ValidDict 1 4 [])
   \<and> parse_rtu_response [0x01, 0x04, 0x00, 0x22, 0xC0] \<noteq> Returns (ErrorDict EmptyPayload)"
  by code_simp

text \<open>
  C4, amended: the parser answers, in this order, FrameTooShort for fewer than 4 bytes;
  ChecksumMismatch when the last two bytes differ from \<open>modbus_crc\<close> of the bytes before
  them; UnsupportedFunction for a function code other than 3 and 4; EmptyPayload when, for
  function code 3 or 4, there is no byte at all between the function code and the
  checksum; and, when the byte count is followed by an even number of payload bytes, the
  slave address, the function code and the big-endian register values. (Every frame of at
  least 4 bytes has the shape used below, by \<open>frame_shape\<close>.)
\<close>

theorem parse_rtu_response_cases:
  "(length bs < 4 \<longrightarrow> parse_rtu_response bs = Returns (ErrorDict FrameTooShort))
 \<and> ([uint c1, uint c2] \<noteq> modbus_crc (map uint (addr # fc # data)) \<longrightarrow>
      parse_rtu_response (addr # fc # data @ [c1, c2]) = Returns (ErrorDict ChecksumMismatch))
 \<and> ([uint c1, uint c2] = modbus_crc (map uint (addr # fc # data)) \<longrightarrow>
      (fc \<noteq> 3 \<and> fc \<noteq> 4 \<longrightarrow>
         parse_rtu_response (addr # fc # data @ [c1, c2]) = Returns (ErrorDict UnsupportedFunction))
    \<and> ((fc = 3 \<or> fc = 4) \<and> data = [] \<longrightarrow>
         parse_rtu_response (addr # fc # data @ [c1, c2]) = Returns (ErrorDict EmptyPayload))
    \<and> ((fc = 3 \<or> fc = 4) \<and> data = byte_count # payload \<and> even (length payload) \<longrightarrow>
         parse_rtu_response (addr # fc # data @ [c1, c2])
           = Returns (ValidDict (uint addr) (uint fc) (be_pairs (map uint payload)))))"
proof -
  let ?frame = "addr # fc # data @ [c1, c2]"
  let ?crc_ok = "[uint c1, uint c2] = modbus_crc (map uint (addr # fc # data))"
  have short: "parse_rtu_response bs = Returns (ErrorDict FrameTooShort)" if "length bs < 4"
    using that by (simp add: parse_rtu_response_def)
  have mismatch: "parse_rtu_response ?frame = Returns (ErrorDict ChecksumMismatch)" if "\<not> ?crc_ok"
    using that by (subst parse_frame) simp
  have unsupported: "parse_rtu_response ?frame = Returns (ErrorDict UnsupportedFunction)"
    if "?crc_ok" and "fc \<noteq> 3 \<and> fc \<noteq> 4"
    using that uint_fc [of fc] by (subst parse_frame) simp
  have empty: "parse_rtu_response ?frame = Returns (ErrorDict EmptyPayload)"
    if "?crc_ok" and "fc = 3 \<or> fc = 4" and "data = []"
    using that uint_fc [of fc] by (subst parse_frame) simp
  have valid: "parse_rtu_response ?frame
                 = Returns (ValidDict (uint addr) (uint fc) (be_pairs (map uint payload)))"
    if ok: "?crc_ok" and fc: "fc = 3 \<or> fc = 4" and data: "data = byte_count # payload"
      and ev: "even (length payload)"
  proof -
    have "\<forall>b \<in> set (map uint data). 0 \<le> b \<and> b < 256"
      using uint_byte_range by auto
    then have "decode_registers (map uint data) 1 [] = Returns ([] @ be_pairs (drop 1 (map uint data)))"
      using data ev by (intro decode_registers_even) auto
    then have regs: "decode_registers (map uint data) 1 [] = Returns (be_pairs (map uint payload))"
      using data by simp
    have "data \<noteq> []" using data by simp
    then show ?thesis using ok fc uint_fc [of fc] regs by (subst parse_frame) simp
  qed
  show ?thesis using short mismatch unsupported empty valid by blast
qed

theorem parse_rtu_response_cases_witness:
  "length [1, 4 :: 8 word] < 4
   \<and> parse_rtu_response [1, 4] = Returns (ErrorDict FrameTooShort)
   \<and> [uint (0 :: 8 word), uint (0 :: 8 word)] \<noteq> modbus_crc (map uint [1, 4, 2, 0, 100 :: 8 word])
   \<and> parse_rtu_response [1, 4, 2, 0, 100, 0, 0] = Returns (ErrorDict ChecksumMismatch)
   \<and> [uint (0x23 :: 8 word), uint (0x50 :: 8 word)] = modbus_crc (map uint [1, 5, 0 :: 8 word])
   \<and> parse_rtu_response [1, 5, 0, 0x23, 0x50] = Returns (ErrorDict UnsupportedFunction)
   \<and> [uint (0x01 :: 8 word), uint (0xE3 :: 8 word)] = modbus_crc (map uint [1, 4 :: 8 word])
   \<and> parse_rtu_response [1, 4, 0x01, 0xE3] = Returns (ErrorDict EmptyPayload)
   \<and> [uint (0xB8 :: 8 word), uint (0xDB :: 8 word)] = modbus_crc (map uint [1, 4, 2, 0, 100 :: 8 word])
   \<and> even (length [0, 100 :: 8 word])
   \<and> parse_rtu_response [1, 4, 2, 0, 100, 0xB8, 0xDB] = Returns (ValidDict 1 4 [100])"
proof -
  have crc1: "modbus_crc (map uint [1, 4, 2, 0, 100 :: 8 word]) = [0xB8, 0xDB]" by code_simp
  have crc2: "modbus_crc (map uint [1, 5, 0 :: 8 word]) = [0x23, 0x50]" by code_simp
  have crc3: "modbus_crc (map uint [1, 4 :: 8 word]) = [0x01, 0xE3]" by code_simp
  show ?thesis
    using parse_rtu_response_cases [of "[1, 4]" 0 0 1 4 "[2, 0, 100]" 2 "[0, 100]"]
      parse_rtu_response_cases [of "[]" "0x23" "0x50" 1 5 "[0]" 0 "[]"]
      parse_rtu_response_cases [of "[]" "0x01" "0xE3" 1 4 "[]" 0 "[]"]
      parse_rtu_response_cases [of "[]" "0xB8" "0xDB" 1 4 "[2, 0, 100]" 2 "[0, 100]"]
      crc1 crc2 crc3
    by simp
qed

section \<open>Properties of the poller\<close>

subsection \<open>What each step leaves unchanged\<close>

lemma connect_fields:
  "read_count (fst (connect ok r)) = read_count r"
  "success_count (fst (connect ok r)) = success_count r"
  "fail_count (fst (connect ok r)) = fail_count r"
  "last_values (fst (connect ok r)) = last_values r"
  "config (fst (connect ok r)) = config r"
  "snd (connect ok r) = ok"
  by (simp_all add: connect_def Let_def split: option.splits)

lemma disconnect_fields:
  "read_count (disconnect r) = read_count r"
  "success_count (disconnect r) = success_count r"
  "fail_count (disconnect r) = fail_count r"
  "last_values (disconnect r) = last_values r"
  "config (disconnect r) = config r"
  "sock (disconnect r) = None"
  by (simp_all add: disconnect_def split: option.splits)

lemma read_sensor_data_state:
  "snd (read_sensor_data loads ex sc r) = r
   \<or> snd (read_sensor_data loads ex sc r) = r\<lparr>trace := trace r @ [EvRequest (sensor_id sc)]\<rparr>"
  by (simp add: read_sensor_data_def Let_def
      split: outcome.splits option.splits rtu_response.splits list.splits)

lemma read_sensor_data_fields:
  "read_count (snd (read_sensor_data loads ex sc r)) = read_count r"
  "success_count (snd (read_sensor_data loads ex sc r)) = success_count r"
  "fail_count (snd (read_sensor_data loads ex sc r)) = fail_count r"
  "last_values (snd (read_sensor_data loads ex sc r)) = last_values r"
  "config (snd (read_sensor_data loads ex sc r)) = config r"
  "sock (snd (read_sensor_data loads ex sc r)) = sock r"
  using read_sensor_data_state [of loads ex sc r] by auto

lemma detect_change_fields:
  "read_count (fst (detect_change raises sc sd r)) = read_count r"
  "success_count (fst (detect_change raises sc sd r)) = success_count r"
  "fail_count (fst (detect_change raises sc sd r)) = fail_count r"
  "config (fst (detect_change raises sc sd r)) = config r"
  "sock (fst (detect_change raises sc sd r)) = sock r"
  by (simp_all add: detect_change_def Let_def split: option.splits)

lemma read_sensors_fields:
  "read_count (fst (read_sensors loads env i scs r)) = read_count r
   \<and> success_count (fst (read_sensors loads env i scs r)) = success_count r
   \<and> fail_count (fst (read_sensors loads env i scs r)) = fail_count r
   \<and> config (fst (read_sensors loads env i scs r)) = config r
   \<and> sock (fst (read_sensors loads env i scs r)) = sock r"
proof (induction scs arbitrary: i r)
  case Nil
  show ?case by simp
next
  case (Cons sc scs)
  obtain res r1 where rd: "read_sensor_data loads (exchanges env i) sc r = (res, r1)"
    by (cases "read_sensor_data loads (exchanges env i) sc r")
  have r1: "read_count r1 = read_count r" "success_count r1 = success_count r"
    "fail_count r1 = fail_count r" "config r1 = config r" "sock r1 = sock r"
    using read_sensor_data_fields [of loads "exchanges env i" sc r] rd by simp_all
  show ?case
  proof (cases res)
    case None
    with rd r1 show ?thesis by simp
  next
    case (Some sd)
    obtain r2 raised where dc: "detect_change (callback_raises env i) sc sd r1 = (r2, raised)"
      by (cases "detect_change (callback_raises env i) sc sd r1")
    have r2: "read_count r2 = read_count r" "success_count r2 = success_count r"
      "fail_count r2 = fail_count r" "config r2 = config r" "sock r2 = sock r"
      using detect_change_fields [of "callback_raises env i" sc sd r1] dc r1 by simp_all
    show ?thesis
      using rd Some dc r2 Cons.IH [of "i + 1" r2] by (cases raised) simp_all
  qed
qed

lemma try_reads_fields:
  "read_count (fst (try_reads loads env r)) = read_count r
   \<and> success_count (fst (try_reads loads env r)) = success_count r
   \<and> fail_count (fst (try_reads loads env r)) = fail_count r
   \<and> config (fst (try_reads loads env r)) = config r"
proof (cases "sock r")
  case (Some s)
  then show ?thesis using read_sensors_fields [of loads env 0 "sensors (config r)" r]
    by (simp add: try_reads_def)
next
  case None
  obtain r1 ok where c: "connect (reconnect env) r = (r1, ok)"
    by (cases "connect (reconnect env) r")
  have r1: "read_count r1 = read_count r" "success_count r1 = success_count r"
    "fail_count r1 = fail_count r" "config r1 = config r"
    using connect_fields [of "reconnect env" r] c by simp_all
  show ?thesis
    using None c r1 read_sensors_fields [of loads env 0 "sensors (config r1)" r1]
    by (cases ok) (simp_all add: try_reads_def)
qed

lemma cycle_counts:
  "read_count (cycle loads env r) = read_count r + 1
   \<and> (success_count (cycle loads env r) = success_count r + 1
        \<and> fail_count (cycle loads env r) = fail_count r
      \<or> success_count (cycle loads env r) = success_count r
        \<and> fail_count (cycle loads env r) = fail_count r + 1)"
proof -
  obtain r1 a where t: "try_reads loads env (r\<lparr>read_count := read_count r + 1\<rparr>) = (r1, a)"
    by (cases "try_reads loads env (r\<lparr>read_count := read_count r + 1\<rparr>)")
  have r1: "read_count r1 = read_count r + 1" "success_count r1 = success_count r"
    "fail_count r1 = fail_count r"
    using try_reads_fields [of loads env "r\<lparr>read_count := read_count r + 1\<rparr>"] t by simp_all
  show ?thesis using t r1 by (cases a) (simp_all add: cycle_def disconnect_fields)
qed

lemma cycles_counts:
  "read_count (cycles loads envs r) = read_count r + length envs
   \<and> success_count (cycles loads envs r) + fail_count (cycles loads envs r)
       = success_count r + fail_count r + length envs"
proof (induction envs arbitrary: r)
  case Nil
  show ?case by (simp add: cycles_def)
next
  case (Cons env envs)
  have step: "cycles loads (env # envs) r = cycles loads envs (cycle loads env r)"
    by (simp add: cycles_def)
  show ?case using Cons.IH [of "cycle loads env r"] cycle_counts [of loads env r]
    by (auto simp: step)
qed

subsection \<open>The example gateway\<close>

lemma request_tem_ch01: "build_rtu_request 1 0 1 4 = Returns [0x01, 0x04, 0x00, 0x00, 0x00, 0x01, 0x31, 0xCA]"
  by code_simp

lemma answer_parsed: "parse_rtu_response [0x01, 0x04, 0x02, 0x00, 0x64, 0xB8, 0xDB] = Returns (ValidDict 1 4 [100])"
  by code_simp

lemma read_timed_out:
  "sock r = Some Connected \<Longrightarrow>
   read_sensor_data no_formula timed_out tem_ch01 r = (None, r\<lparr>trace := trace r @ [EvRequest ''tem_ch01'']\<rparr>)"
  by (simp add: read_sensor_data_def tem_ch01_def timed_out_def request_tem_ch01)

lemma read_send_failed:
  "sock r = Some Connected \<Longrightarrow>
   read_sensor_data no_formula send_failed tem_ch01 r = (None, r\<lparr>trace := trace r @ [EvRequest ''tem_ch01'']\<rparr>)"
  by (simp add: read_sensor_data_def tem_ch01_def send_failed_def request_tem_ch01)

lemma read_recv_failed:
  "sock r = Some Connected \<Longrightarrow>
   read_sensor_data no_formula recv_failed tem_ch01 r = (None, r\<lparr>trace := trace r @ [EvRequest ''tem_ch01'']\<rparr>)"
  by (simp add: read_sensor_data_def tem_ch01_def recv_failed_def request_tem_ch01)

lemma read_answered:
  "sock r = Some Connected \<Longrightarrow>
   read_sensor_data no_formula answered tem_ch01 r =
     (Some \<lparr> sd_sensor_id = ''tem_ch01'', sd_sensor_type = TEMPERATURE, sd_value = 10,
             sd_raw_value = 100, sd_timestamp = 2, sd_quality = ''good'' \<rparr>,
      r\<lparr>trace := trace r @ [EvRequest ''tem_ch01'']\<rparr>)"
  by (simp add: read_sensor_data_def tem_ch01_def answered_def request_tem_ch01 answer_parsed
       apply_conversion_formula_def formula_value_def)

subsection \<open>Claims about the poller\<close>

text \<open>
  C2 (a failed read closes the socket before the next pass reads). A read that fails,
  by a timeout, a send error or a receive error, makes \<open>read_sensor_data\<close> return
  \<open>None\<close>; the loop counts a failure and goes on. Only the \<^verbatim>\<open>except\<close> branch of
  \<open>run\<close> calls \<open>disconnect\<close>, and \<open>read_sensor_data\<close> lets no exception out. After a
  failed pass the poller still holds its socket, and the next pass sends its request on
  it: between the requests of four passes, the first three of which fail, the trace has
  neither a close nor a connection attempt.
\<close>

theorem failed_read_keeps_socket:
  "sock (cycle no_formula (pass_with timed_out 1)
           (fst (connect True (IOModuleReader_init temp_module_01 OnDataReceived)))) = Some Connected
   \<and> sock (cycle no_formula (pass_with send_failed 1)
           (fst (connect True (IOModuleReader_init temp_module_01 OnDataReceived)))) = Some Connected
   \<and> sock (cycle no_formula (pass_with recv_failed 1)
           (fst (connect True (IOModuleReader_init temp_module_01 OnDataReceived)))) = Some Connected
   \<and> fail_count (cycle no_formula (pass_with timed_out 1)
           (fst (connect True (IOModuleReader_init temp_module_01 OnDataReceived)))) = 1
   \<and> trace (run no_formula True
               [pass_with timed_out 1, pass_with send_failed 1, pass_with recv_failed 1,
                pass_with answered 2]
              (IOModuleReader_init temp_module_01 OnDataReceived))
       = [EvConnect True,
          EvRequest ''tem_ch01'',
          EvRequest ''tem_ch01'',
          EvRequest ''tem_ch01'',
          EvRequest ''tem_ch01'',
          EvCallback \<lparr> sd_sensor_id = ''tem_ch01'', sd_sensor_type = TEMPERATURE, sd_value = 10,
                        sd_raw_value = 100, sd_timestamp = 2, sd_quality = ''good'' \<rparr>,
          EvClose]"
  by (simp add: run_def cycles_def cycle_def try_reads_def connect_def disconnect_def IOModuleReader_init_def
        pass_with_def temp_module_01_def read_timed_out read_send_failed read_recv_failed
        read_answered detect_change_def Let_def)

text \<open>
  C10 (the counters of a poller). Every pass adds one to \<open>read_count\<close> and one to exactly
  one of \<open>success_count\<close> and \<open>fail_count\<close>; all three start at zero; so after any number
  of passes of a started poller, and when the thread has ended,
  \<open>read_count = success_count + fail_count\<close>.
\<close>

theorem poller_stats_invariant:
  "read_count (cycle loads env r) = read_count r + 1
   \<and> (success_count (cycle loads env r) = success_count r + 1
        \<and> fail_count (cycle loads env r) = fail_count r
      \<or> success_count (cycle loads env r) = success_count r
        \<and> fail_count (cycle loads env r) = fail_count r + 1)
   \<and> read_count (IOModuleReader_init cfg callback) = 0
   \<and> success_count (IOModuleReader_init cfg callback) = 0
   \<and> fail_count (IOModuleReader_init cfg callback) = 0
   \<and> read_count (cycles loads envs (fst (connect True ((IOModuleReader_init cfg callback)\<lparr>running := True\<rparr>))))
       = success_count (cycles loads envs (fst (connect True ((IOModuleReader_init cfg callback)\<lparr>running := True\<rparr>))))
         + fail_count (cycles loads envs (fst (connect True ((IOModuleReader_init cfg callback)\<lparr>running := True\<rparr>))))
   \<and> read_count (run loads first envs (IOModuleReader_init cfg callback))
       = success_count (run loads first envs (IOModuleReader_init cfg callback))
         + fail_count (run loads first envs (IOModuleReader_init cfg callback))"
proof -
  let ?r0 = "(IOModuleReader_init cfg callback)\<lparr>running := True\<rparr>"
  have init: "read_count ?r0 = 0" "success_count ?r0 = 0" "fail_count ?r0 = 0"
    by (simp_all add: IOModuleReader_init_def)
  have entry: "read_count (fst (connect ok ?r0)) = 0" "success_count (fst (connect ok ?r0)) = 0"
    "fail_count (fst (connect ok ?r0)) = 0" for ok
    using init by (simp_all add: connect_fields)
  have loop: "read_count (cycles loads envs (fst (connect ok ?r0)))
        = success_count (cycles loads envs (fst (connect ok ?r0)))
          + fail_count (cycles loads envs (fst (connect ok ?r0)))" for ok
    using cycles_counts [of loads envs "fst (connect ok ?r0)"] entry [of ok] by simp
  have run: "read_count (run loads first envs (IOModuleReader_init cfg callback))
       = success_count (run loads first envs (IOModuleReader_init cfg callback))
         + fail_count (run loads first envs (IOModuleReader_init cfg callback))"
  proof (cases first)
    case True
    have "run loads True envs (IOModuleReader_init cfg callback)
            = disconnect ((cycles loads envs (fst (connect True ?r0)))\<lparr>running := False\<rparr>)"
      using connect_fields(6) [of True ?r0]
      by (cases "connect True ?r0") (simp add: run_def)
    then show ?thesis using True loop [of True] by (simp add: disconnect_fields)
  next
    case False
    have "run loads False envs (IOModuleReader_init cfg callback) = fst (connect False ?r0)"
      using connect_fields(6) [of False ?r0]
      by (cases "connect False ?r0") (simp add: run_def)
    then show ?thesis using False entry [of False] by simp
  qed
  show ?thesis
    using cycle_counts [of loads env r] loop [of True] run
    by (simp add: IOModuleReader_init_def)
qed

subsection \<open>The stored last values and the trace\<close>


















section \<open>Properties of the value converter\<close>



section \<open>Properties of the manager\<close>

subsection \<open>The callbacks\<close>

lemma call_callbacks_called:
  "called (snd (call_callbacks cbs i sd w)) = [i ..< i + length cbs]"
proof (induction cbs arbitrary: i w)
  case Nil
  show ?case by simp
next
  case (Cons cb cbs)
  obtain w1 raised where c: "cb sd w = (w1, raised)" by (cases "cb sd w")
  obtain w2 evs where r: "call_callbacks cbs (i + 1) sd w1 = (w2, evs)"
    by (cases "call_callbacks cbs (i + 1) sd w1")
  have "called evs = [i + 1 ..< i + 1 + length cbs]" using Cons.IH [of "i + 1" w1] r by simp
  moreover have "[i ..< i + length (cb # cbs)] = i # [i + 1 ..< i + 1 + length cbs]"
    using upt_conv_Cons [of i "i + 1 + length cbs"] by (simp del: upt_Suc)
  ultimately show ?case using c r by (simp del: upt_Suc)
qed

lemma call_callbacks_no_lock:
  "filter is_lock_event (snd (call_callbacks cbs i sd w)) = []"
proof (induction cbs arbitrary: i w)
  case Nil
  show ?case by simp
next
  case (Cons cb cbs)
  obtain w1 raised where c: "cb sd w = (w1, raised)" by (cases "cb sd w")
  obtain w2 evs where r: "call_callbacks cbs (i + 1) sd w1 = (w2, evs)"
    by (cases "call_callbacks cbs (i + 1) sd w1")
  have "filter is_lock_event evs = []" using Cons.IH [of "i + 1" w1] r by simp
  then show ?case using c r by simp
qed

lemma call_callbacks_world:
  "fst (call_callbacks cbs i sd w) = foldl (\<lambda>w cb. fst (cb sd w)) w cbs"
proof (induction cbs arbitrary: i w)
  case Nil
  show ?case by simp
next
  case (Cons cb cbs)
  obtain w1 raised where c: "cb sd w = (w1, raised)" by (cases "cb sd w")
  obtain w2 evs where r: "call_callbacks cbs (i + 1) sd w1 = (w2, evs)"
    by (cases "call_callbacks cbs (i + 1) sd w1")
  show ?case using Cons.IH [of "i + 1" w1] c r by simp
qed

lemma on_data_received_parts:
  "fst (on_data_received sd (m, w))
     = (m\<lparr>all_data := store sd (all_data m)\<rparr>, fst (call_callbacks (data_callbacks m) 0 sd w))"
  "snd (on_data_received sd (m, w))
     = store_events sd (all_data m) @ snd (call_callbacks (data_callbacks m) 0 sd w)"
  by (simp_all add: on_data_received_def Let_def split_beta)

subsection \<open>The history\<close>

lemma on_data_received_all_data:
  "all_data (fst (fst (on_data_received sd mw))) = store sd (all_data (fst mw))"
  by (cases mw) (simp add: on_data_received_def Let_def split_beta)

lemma store_last:
  assumes "length history \<le> 1000"
  shows "store sd history = drop (length (history @ [sd]) - 1000) (history @ [sd])"
  using assms by (simp add: store_def Let_def)

lemma ingest_all_history:
  assumes "all_data (fst mw) = drop (length old - 1000) old"
  shows "all_data (fst (ingest_all readings mw))
           = drop (length (old @ readings) - 1000) (old @ readings)"
  using assms
proof (induction readings arbitrary: mw old)
  case Nil
  then show ?case by (simp add: ingest_all_def)
next
  case (Cons sd readings)
  let ?mw = "fst (on_data_received sd mw)"
  have step: "ingest_all (sd # readings) mw = ingest_all readings ?mw"
    by (simp add: ingest_all_def)
  have "all_data (fst ?mw) = store sd (drop (length old - 1000) old)"
    using Cons.prems by (simp add: on_data_received_all_data)
  also have "\<dots> = drop (length (old @ [sd]) - 1000) (old @ [sd])"
  proof (cases "1000 \<le> length old")
    case True
    then have "Suc (length old - 1000) = length old - 999" by simp
    with True show ?thesis by (simp add: store_def Let_def)
  next
    case False
    then show ?thesis by (simp add: store_def Let_def)
  qed
  finally have "all_data (fst (ingest_all readings ?mw))
        = drop (length ((old @ [sd]) @ readings) - 1000) ((old @ [sd]) @ readings)"
    by (rule Cons.IH)
  then show ?case by (simp add: step)
qed

lemma sort_reverse_sorted:
  "sorted_wrt (\<lambda>x y. key x \<ge> key y) (sort_reverse key xs)"
proof -
  have "sorted (map key (sort_key key (rev xs)))" by (rule sorted_sort_key)
  then have "sorted_wrt (\<lambda>x y. key x \<le> key y) (sort_key key (rev xs))"
    by (simp add: sorted_map)
  then show ?thesis by (simp add: sort_reverse_def sorted_wrt_rev)
qed

lemma sort_reverse_mset: "mset (sort_reverse key xs) = mset xs"
  by (simp add: sort_reverse_def)

lemma sort_reverse_stable:
  "filter (\<lambda>x. key x = k) (sort_reverse key xs) = filter (\<lambda>x. key x = k) xs"
  by (simp add: sort_reverse_def rev_filter [symmetric] filter_sort [symmetric] sort_key_stable)

subsection \<open>Claims about the manager\<close>

text \<open>
  C7 (the history buffer). After any sequence of calls of \<open>on_data_received\<close> on a new
  manager the history is the last 1000 of the readings received, in the order received;
  it never holds more than 1000; a reading received by a full history evicts the oldest
  one, whatever its sensor; 1500 readings leave the last 1000; and \<open>get_latest_data\<close>
  without filters returns the history sorted by timestamp, latest first.
\<close>

theorem history_buffer:
  "all_data (fst (ingest_all readings (MultiIOModuleManager_init\<lparr>data_callbacks := callbacks\<rparr>, w)))
     = drop (length readings - 1000) readings
   \<and> length (all_data (fst (ingest_all readings
               (MultiIOModuleManager_init\<lparr>data_callbacks := callbacks\<rparr>, w)))) \<le> 1000
   \<and> (length readings = 1500 \<longrightarrow>
        all_data (fst (ingest_all readings (MultiIOModuleManager_init\<lparr>data_callbacks := callbacks\<rparr>, w)))
          = drop 500 readings
        \<and> length (all_data (fst (ingest_all readings
               (MultiIOModuleManager_init\<lparr>data_callbacks := callbacks\<rparr>, w)))) = 1000)
   \<and> (length (all_data m) = 1000 \<longrightarrow>
        all_data (fst (fst (on_data_received sd (m, w)))) = tl (all_data m) @ [sd])
   \<and> (length (all_data m) < 1000 \<longrightarrow>
        all_data (fst (fst (on_data_received sd (m, w)))) = all_data m @ [sd])
   \<and> sorted_wrt (\<lambda>x y. sd_timestamp x \<ge> sd_timestamp y) (get_latest_data None None m)
   \<and> mset (get_latest_data None None m) = mset (all_data m)"
proof -
  let ?m0 = "MultiIOModuleManager_init\<lparr>data_callbacks := callbacks\<rparr>"
  have "all_data (fst (?m0, w)) = drop (length ([] :: EnhancedSensorData list) - 1000) []"
    by (simp add: MultiIOModuleManager_init_def)
  then have "all_data (fst (ingest_all readings (?m0, w)))
      = drop (length ([] @ readings) - 1000) ([] @ readings)"
    by (rule ingest_all_history)
  then have kept: "all_data (fst (ingest_all readings (?m0, w))) = drop (length readings - 1000) readings"
    by simp
  have full: "all_data (fst (fst (on_data_received sd (m, w)))) = tl (all_data m) @ [sd]"
    if "length (all_data m) = 1000"
    using that by (simp add: on_data_received_all_data store_def Let_def drop_Suc)
  have room: "all_data (fst (fst (on_data_received sd (m, w)))) = all_data m @ [sd]"
    if "length (all_data m) < 1000"
    using that by (simp add: on_data_received_all_data store_def Let_def)
  have query: "get_latest_data None None m = sort_reverse sd_timestamp (all_data m)"
    by (simp add: get_latest_data_def)
  show ?thesis
    using full room by (simp add: kept query sort_reverse_sorted sort_reverse_mset)
qed

theorem history_buffer_witness:
  "length (map reading_at [0 ..< 1500]) = 1500
   \<and> all_data (fst (ingest_all (map reading_at [0 ..< 1500])
                      ((MultiIOModuleManager_init :: unit MultiIOModuleManager), ())))
       = drop 500 (map reading_at [0 ..< 1500])
   \<and> length (all_data (fst (ingest_all (map reading_at [0 ..< 1500])
                      ((MultiIOModuleManager_init :: unit MultiIOModuleManager), ())))) = 1000
   \<and> all_data (fst (fst (on_data_received (reading_at 1000)
         ((MultiIOModuleManager_init :: unit MultiIOModuleManager)
            \<lparr>all_data := map reading_at [0 ..< 1000]\<rparr>, ()))))
       = tl (map reading_at [0 ..< 1000]) @ [reading_at 1000]
   \<and> all_data (fst (fst (on_data_received (reading_at 0)
         ((MultiIOModuleManager_init :: unit MultiIOModuleManager), ()))))
       = [reading_at 0]"
proof -
  let ?m0 = "MultiIOModuleManager_init :: unit MultiIOModuleManager"
  have m0: "?m0\<lparr>data_callbacks := []\<rparr> = ?m0" "all_data ?m0 = []"
    by (simp_all add: MultiIOModuleManager_init_def)
  have n: "length (map reading_at [0 ..< 1500]) = 1500" "length (map reading_at [0 ..< 1000]) = 1000"
    by (simp_all del: upt_rec_numeral)
  have full: "length (all_data (?m0\<lparr>all_data := map reading_at [0 ..< 1000]\<rparr>)) = 1000"
    by (simp del: upt_rec_numeral)
  show ?thesis
    using history_buffer [of "map reading_at [0 ..< 1500]" "[]" "()"
            "?m0\<lparr>all_data := map reading_at [0 ..< 1000]\<rparr>" "reading_at 1000"]
      history_buffer [of "[]" "[]" "()" ?m0 "reading_at 0"]
      m0 n full
    by (simp del: upt_rec_numeral)
qed

lemma register_all_callbacks:
  "data_callbacks (register_all callbacks m) = data_callbacks m @ callbacks
   \<and> all_data (register_all callbacks m) = all_data m"
proof (induction callbacks arbitrary: m)
  case Nil
  show ?case by (simp add: register_all_def)
next
  case (Cons callback callbacks)
  have step: "register_all (callback # callbacks) m
                = register_all callbacks (add_data_callback callback m)"
    by (simp add: register_all_def)
  show ?case using Cons.IH [of "add_data_callback callback m"]
    by (simp add: step add_data_callback_def)
qed

text \<open>
  C8 (fan-out). \<open>on_data_received\<close> first appends the reading to the history, between
  taking and releasing the lock, and then calls every callback of the list
  \<open>data_callbacks\<close>, in the order of the list and after the lock is released, whether or
  not an earlier callback raised; the history it leaves does not depend on the callbacks.
  \<open>add_data_callback\<close> appends to that list, so after registering callbacks one after the
  other the list is these callbacks in the order of registration, and a reading is
  handed to them in that order.
\<close>

theorem on_data_received_fan_out:
  "all_data (fst (fst (on_data_received sd (m, w))))
     = (if length (all_data m) < 1000 then all_data m @ [sd]
        else drop (length (all_data m) - 999) (all_data m) @ [sd])
   \<and> (\<exists>evs. snd (on_data_received sd (m, w))
               = [LockAcquired, Appended sd]
                 @ (if length (all_data m) < 1000 then [] else [Truncated])
                 @ [LockReleased] @ evs
            \<and> called evs = [0 ..< length (data_callbacks m)]
            \<and> filter is_lock_event evs = [])
   \<and> snd (fst (on_data_received sd (m, w))) = foldl (\<lambda>w callback. fst (callback sd w)) w (data_callbacks m)
   \<and> data_callbacks (fst (fst (on_data_received sd (m, w)))) = data_callbacks m
   \<and> all_data (fst (fst (on_data_received sd (m, w))))
       = all_data (fst (fst (on_data_received sd (m\<lparr>data_callbacks := []\<rparr>, w))))
   \<and> data_callbacks (add_data_callback callback m) = data_callbacks m @ [callback]
   \<and> data_callbacks (register_all callbacks MultiIOModuleManager_init) = callbacks
   \<and> snd (fst (on_data_received sd (register_all callbacks m, w)))
       = foldl (\<lambda>w callback. fst (callback sd w)) w (data_callbacks m @ callbacks)
   \<and> (\<exists>evs. snd (on_data_received sd (register_all callbacks MultiIOModuleManager_init, w))
               = [LockAcquired, Appended sd, LockReleased] @ evs
            \<and> called evs = [0 ..< length callbacks]
            \<and> filter is_lock_event evs = [])"
proof -
  have buffer: "store sd (all_data m)
     = (if length (all_data m) < 1000 then all_data m @ [sd]
        else drop (length (all_data m) - 999) (all_data m) @ [sd])"
    by (simp add: store_def Let_def)
  have events: "store_events sd (all_data m)
     = [LockAcquired, Appended sd]
       @ (if length (all_data m) < 1000 then [] else [Truncated]) @ [LockReleased]"
    by (simp add: store_events_def)
  let ?evs = "snd (call_callbacks (data_callbacks m) 0 sd w)"
  have ev: "snd (on_data_received sd (m, w))
               = [LockAcquired, Appended sd]
                 @ (if length (all_data m) < 1000 then [] else [Truncated])
                 @ [LockReleased] @ ?evs"
    using events by (simp add: on_data_received_parts)
  have c: "called ?evs = [0 ..< length (data_callbacks m)]"
    using call_callbacks_called [of "data_callbacks m" 0 sd w] by simp
  have l: "filter is_lock_event ?evs = []" by (rule call_callbacks_no_lock)
  have "\<exists>evs. snd (on_data_received sd (m, w))
               = [LockAcquired, Appended sd]
                 @ (if length (all_data m) < 1000 then [] else [Truncated])
                 @ [LockReleased] @ evs
            \<and> called evs = [0 ..< length (data_callbacks m)]
            \<and> filter is_lock_event evs = []"
    using ev c l by blast
  then have first: "all_data (fst (fst (on_data_received sd (m, w))))
     = (if length (all_data m) < 1000 then all_data m @ [sd]
        else drop (length (all_data m) - 999) (all_data m) @ [sd])
   \<and> (\<exists>evs. snd (on_data_received sd (m, w))
               = [LockAcquired, Appended sd]
                 @ (if length (all_data m) < 1000 then [] else [Truncated])
                 @ [LockReleased] @ evs
            \<and> called evs = [0 ..< length (data_callbacks m)]
            \<and> filter is_lock_event evs = [])
   \<and> snd (fst (on_data_received sd (m, w))) = foldl (\<lambda>w callback. fst (callback sd w)) w (data_callbacks m)
   \<and> data_callbacks (fst (fst (on_data_received sd (m, w)))) = data_callbacks m
   \<and> all_data (fst (fst (on_data_received sd (m, w))))
       = all_data (fst (fst (on_data_received sd (m\<lparr>data_callbacks := []\<rparr>, w))))"
    using buffer by (simp add: on_data_received_parts call_callbacks_world)
  have reg1: "data_callbacks (add_data_callback callback m) = data_callbacks m @ [callback]"
    by (simp add: add_data_callback_def)
  let ?m0 = "MultiIOModuleManager_init :: 'a MultiIOModuleManager"
  have reg0: "data_callbacks (register_all callbacks ?m0) = callbacks"
    "all_data (register_all callbacks ?m0) = []"
    using register_all_callbacks [of callbacks ?m0] by (simp_all add: MultiIOModuleManager_init_def)
  have world: "snd (fst (on_data_received sd (register_all callbacks m, w)))
       = foldl (\<lambda>w callback. fst (callback sd w)) w (data_callbacks m @ callbacks)"
    using register_all_callbacks [of callbacks m]
    by (simp add: on_data_received_parts call_callbacks_world)
  let ?revs = "snd (call_callbacks callbacks 0 sd w)"
  have "snd (on_data_received sd (register_all callbacks ?m0, w))
               = [LockAcquired, Appended sd, LockReleased] @ ?revs"
    using reg0 by (simp add: on_data_received_parts store_events_def)
  moreover have "called ?revs = [0 ..< length callbacks]"
    using call_callbacks_called [of callbacks 0 sd w] by simp
  moreover have "filter is_lock_event ?revs = []" by (rule call_callbacks_no_lock)
  ultimately have regs: "\<exists>evs. snd (on_data_received sd (register_all callbacks ?m0, w))
               = [LockAcquired, Appended sd, LockReleased] @ evs
            \<and> called evs = [0 ..< length callbacks]
            \<and> filter is_lock_event evs = []"
    by blast
  show ?thesis using first reg1 reg0(1) world regs by blast
qed

text \<open>
  C9 (adding a gateway). \<open>add_module\<close> stores a new reader for the module under its
  identifier, bound to \<open>on_data_received\<close>, and then raises AttributeError: the log
  message reads \<^verbatim>\<open>config.config.port\<close>, and an \<open>IOModuleConfig\<close> has no attribute
  \<open>config\<close>. This happens for every configuration, the example module included.
\<close>

theorem add_module_raises:
  "fst (add_module cfg m) = Raises AttributeError
   \<and> modules (snd (add_module cfg m)) (module_id cfg) = Some (IOModuleReader_init cfg OnDataReceived)
   \<and> fst (add_module temp_module_01 MultiIOModuleManager_init) = Raises AttributeError"
proof -
  have "\<not> hasattr_IOModuleConfig ''config''"
    by (simp add: hasattr_IOModuleConfig_def IOModuleConfig_attributes_def)
  then show ?thesis by (simp add: add_module_def Let_def)
qed

end
